theory Spec2Isabelle
  imports Complex_Main "HOL-Library.Sublist"
begin

section \<open>FemElement: the generic finite-element base (multibody/fem/fem_element.h)\<close>

text \<open>
  The class template \<open>FemElement<DerivedElement>\<close> is embedded as a record of its data
  members together with the kernels that the concrete element supplies. The scalar type
  \<open>T\<close> of the traits is a type variable of a ring class: scalar arithmetic is exact, and
  rounding of a floating-point instantiation is outside this model. Fixed-size Eigen
  vectors are lists, fixed-size matrices are lists of rows; \<open>Vector3<T>\<close> weights are a
  triple. An \<open>EigenPtr\<close> argument is an option, \<open>None\<close> being the null pointer; the
  buffer a call writes through the pointer is returned as the result.
\<close>

subsection \<open>Failures\<close>

datatype error =
    AssertionFailure      \<comment> \<open>a failed \<open>DRAKE_DEMAND\<close> or \<open>DRAKE_ASSERT\<close>\<close>
  | RuntimeError string   \<comment> \<open>\<open>throw std::runtime_error(message)\<close>\<close>

text \<open>
  Modelled from the spec: the macros \<open>DRAKE_DEMAND\<close> and \<open>DRAKE_ASSERT\<close> come from
  \<open>drake/common/drake_assert.h\<close>, which is not among the sources. The specification
  describes both as an assertion-style check that fails fast and is fatal when its
  condition is false; the model takes the check as armed.
\<close>

definition DRAKE_DEMAND :: "bool \<Rightarrow> (error + 'r) \<Rightarrow> error + 'r" where
  "DRAKE_DEMAND condition continue = (if condition then continue else Inl AssertionFailure)"

definition DRAKE_ASSERT :: "bool \<Rightarrow> (error + 'r) \<Rightarrow> error + 'r" where
  "DRAKE_ASSERT condition continue = (if condition then continue else Inl AssertionFailure)"

subsection \<open>Fixed-size vectors and matrices\<close>

type_synonym 'a vec = "'a list"
type_synonym 'a mat = "'a list list"

definition setZero_vec :: "'a::comm_ring_1 vec \<Rightarrow> 'a vec" where
  "setZero_vec v = map (\<lambda>_. 0) v"

definition setZero_mat :: "'a::comm_ring_1 mat \<Rightarrow> 'a mat" where
  "setZero_mat A = map (map (\<lambda>_. 0)) A"

definition Zero_mat :: "nat \<Rightarrow> nat \<Rightarrow> 'a::comm_ring_1 mat" where
  "Zero_mat rows cols = replicate rows (replicate cols 0)"

definition vec_add :: "'a::comm_ring_1 vec \<Rightarrow> 'a vec \<Rightarrow> 'a vec" where
  "vec_add u v = map2 (+) u v"

definition vec_scale :: "'a::comm_ring_1 \<Rightarrow> 'a vec \<Rightarrow> 'a vec" where
  "vec_scale s v = map ((*) s) v"

definition mat_add :: "'a::comm_ring_1 mat \<Rightarrow> 'a mat \<Rightarrow> 'a mat" where
  "mat_add A B = map2 vec_add A B"

definition mat_scale :: "'a::comm_ring_1 \<Rightarrow> 'a mat \<Rightarrow> 'a mat" where
  "mat_scale s A = map (vec_scale s) A"

definition dot :: "'a::comm_ring_1 vec \<Rightarrow> 'a vec \<Rightarrow> 'a" where
  "dot u v = sum_list (map2 (*) u v)"

definition mat_vec :: "'a::comm_ring_1 mat \<Rightarrow> 'a vec \<Rightarrow> 'a vec" where
  "mat_vec A v = map (\<lambda>row. dot row v) A"

text \<open>The shape fixed by the type \<open>Eigen::Matrix<T, n, n>\<close>.\<close>

definition is_mat :: "nat \<Rightarrow> 'a mat \<Rightarrow> bool" where
  "is_mat n A = (length A = n \<and> list_all (\<lambda>row. length row = n) A)"

text \<open>\<open>buf.segment<k>(offset) = seg\<close> for a segment that lies inside the buffer.\<close>

definition assign_segment :: "nat \<Rightarrow> 'a list \<Rightarrow> 'a list \<Rightarrow> 'a list" where
  "assign_segment offset seg buf = take offset buf @ seg @ drop (offset + length seg) buf"

definition segment :: "nat \<Rightarrow> nat \<Rightarrow> 'a list \<Rightarrow> 'a list" where
  "segment k offset buf = take k (drop offset buf)"

subsection \<open>The element\<close>

record 'a DampingModel =
  mass_coeff_alpha :: 'a
  stiffness_coeff_beta :: 'a

text \<open>
  What a concrete \<open>DerivedElement\<close> declares. A kernel the concrete class does not
  define is \<open>None\<close>; the name then resolves to the member of the base class. A kernel
  receives the buffer behind the pointer and returns the buffer it leaves.
\<close>

record ('a, 's, 'd) DerivedElement =
  type_name :: string
  derived_DoComputeData :: "('s \<Rightarrow> 'd) option"
  derived_DoCalcResidual :: "('d \<Rightarrow> 'a vec \<Rightarrow> 'a vec) option"
  derived_DoAddScaledStiffnessMatrix :: "('d \<Rightarrow> 'a \<Rightarrow> 'a mat \<Rightarrow> 'a mat) option"
  derived_DoAddScaledMassMatrix :: "('d \<Rightarrow> 'a \<Rightarrow> 'a mat \<Rightarrow> 'a mat) option"
  derived_DoAddScaledExternalForce :: "('d \<Rightarrow> 'a \<Rightarrow> 'a vec \<Rightarrow> 'a vec) option"

text \<open>
  The data members \<open>element_index_\<close>, \<open>node_indices_\<close>, \<open>constitutive_model_\<close>,
  \<open>damping_model_\<close> and \<open>gravity_\<close>, under the names of their accessors, with the
  constants of the traits and the concrete class. Indices are natural numbers: the
  index types are not among the sources, the specification has them validated as
  non-negative, and the validity assertions of the constructor then hold by type.
\<close>

record ('a, 's, 'd, 'c) FemElement =
  num_nodes :: nat
  num_dofs :: nat
  element_index :: nat
  node_indices :: "nat list"
  constitutive_model :: 'c
  damping_model :: "'a DampingModel"
  gravity_vector :: "'a vec"
  derived :: "('a, 's, 'd) DerivedElement"

text \<open>The member initialiser \<open>Vector3<T> gravity_{0, 0, -9.81}\<close>.\<close>

definition default_gravity :: "'a::field vec" where
  "default_gravity = [0, 0, - 9.81]"

text \<open>
  The protected constructor: the four arguments are stored, the gravity vector takes its default.
  The counts \<open>num_nodes\<close> and \<open>num_dofs\<close> and the concrete class come from the traits.
\<close>

definition FemElement_ctor ::
  "nat \<Rightarrow> nat \<Rightarrow> ('a::field, 's, 'd) DerivedElement \<Rightarrow> nat \<Rightarrow> nat list \<Rightarrow> 'c \<Rightarrow> 'a DampingModel
     \<Rightarrow> ('a, 's, 'd, 'c) FemElement" where
  "FemElement_ctor nn nd cls idx nodes cm dm =
     \<lparr> num_nodes = nn, num_dofs = nd, element_index = idx,
       node_indices = nodes, constitutive_model = cm,
       damping_model = dm, gravity_vector = default_gravity, derived = cls \<rparr>"

definition set_gravity_vector ::
  "'a vec \<Rightarrow> ('a, 's, 'd, 'c) FemElement \<Rightarrow> ('a, 's, 'd, 'c) FemElement" where
  "set_gravity_vector gravity e = e\<lparr> gravity_vector := gravity \<rparr>"

subsection \<open>The kernels of the base class\<close>

text \<open>
  Modelled from the spec: \<open>NiceTypeName::Get\<close> comes from \<open>drake/common/nice_type_name.h\<close>,
  which is not among the sources. Its argument \<open>*this\<close> has the static type
  \<open>FemElement<DerivedElement>\<close> of a class without virtual members; the specification
  says that the message names the concrete element type, so the name returned is the
  name of the instantiated template, which carries the concrete type as its argument.
\<close>

definition NiceTypeName_Get :: "('a, 's, 'd, 'c) FemElement \<Rightarrow> string" where
  "NiceTypeName_Get e =
     ''drake::multibody::fem::internal::FemElement<'' @ type_name (derived e) @ ''>''"

definition ThrowIfNotImplemented :: "('a, 's, 'd, 'c) FemElement \<Rightarrow> string \<Rightarrow> error" where
  "ThrowIfNotImplemented e source_method =
     RuntimeError (''The DerivedElement from '' @ NiceTypeName_Get e @
                   '' must provide an implementation for '' @ source_method @ ''().'')"

text \<open>
  \<open>static_cast<const DerivedElement*>(this)->DoX(...)\<close> selects the member of the
  concrete class when it declares one and the member of the base class otherwise; the
  base members below throw.
\<close>

definition DoComputeData :: "('a, 's, 'd, 'c) FemElement \<Rightarrow> 's \<Rightarrow> error + 'd" where
  "DoComputeData e state = Inl (ThrowIfNotImplemented e ''DoComputeData'')"

definition DoCalcResidual ::
  "('a, 's, 'd, 'c) FemElement \<Rightarrow> 'd \<Rightarrow> 'a vec \<Rightarrow> error + 'a vec" where
  "DoCalcResidual e data residual = Inl (ThrowIfNotImplemented e ''DoCalcResidual'')"

definition DoAddScaledStiffnessMatrix ::
  "('a, 's, 'd, 'c) FemElement \<Rightarrow> 'd \<Rightarrow> 'a \<Rightarrow> 'a mat \<Rightarrow> error + 'a mat" where
  "DoAddScaledStiffnessMatrix e data scale K =
     Inl (ThrowIfNotImplemented e ''DoAddScaledStiffnessMatrix'')"

definition DoAddScaledMassMatrix ::
  "('a, 's, 'd, 'c) FemElement \<Rightarrow> 'd \<Rightarrow> 'a \<Rightarrow> 'a mat \<Rightarrow> error + 'a mat" where
  "DoAddScaledMassMatrix e data scale M =
     Inl (ThrowIfNotImplemented e ''DoAddScaledMassMatrix'')"

text \<open>The optional hook of the base class: its body is empty.\<close>

definition DoAddScaledExternalForce ::
  "('a, 's, 'd, 'c) FemElement \<Rightarrow> 'd \<Rightarrow> 'a \<Rightarrow> 'a vec \<Rightarrow> error + 'a vec" where
  "DoAddScaledExternalForce e data scale external_force = Inr external_force"

subsection \<open>The public operations\<close>

definition ComputeData :: "('a, 's, 'd, 'c) FemElement \<Rightarrow> 's \<Rightarrow> error + 'd" where
  "ComputeData e state =
     (case derived_DoComputeData (derived e) of
        Some impl \<Rightarrow> Inr (impl state)
      | None \<Rightarrow> DoComputeData e state)"

definition CalcResidual ::
  "('a::comm_ring_1, 's, 'd, 'c) FemElement \<Rightarrow> 'd \<Rightarrow> 'a vec option \<Rightarrow> error + 'a vec" where
  "CalcResidual e data residual =
     DRAKE_ASSERT (residual \<noteq> None)
       (let r = setZero_vec (the residual) in
        case derived_DoCalcResidual (derived e) of
          Some impl \<Rightarrow> Inr (impl data r)
        | None \<Rightarrow> DoCalcResidual e data r)"

definition AddScaledStiffnessMatrix ::
  "('a, 's, 'd, 'c) FemElement \<Rightarrow> 'd \<Rightarrow> 'a \<Rightarrow> 'a mat option \<Rightarrow> error + 'a mat" where
  "AddScaledStiffnessMatrix e data scale K =
     DRAKE_ASSERT (K \<noteq> None)
       (case derived_DoAddScaledStiffnessMatrix (derived e) of
          Some impl \<Rightarrow> Inr (impl data scale (the K))
        | None \<Rightarrow> DoAddScaledStiffnessMatrix e data scale (the K))"

definition AddScaledMassMatrix ::
  "('a, 's, 'd, 'c) FemElement \<Rightarrow> 'd \<Rightarrow> 'a \<Rightarrow> 'a mat option \<Rightarrow> error + 'a mat" where
  "AddScaledMassMatrix e data scale M =
     DRAKE_ASSERT (M \<noteq> None)
       (case derived_DoAddScaledMassMatrix (derived e) of
          Some impl \<Rightarrow> Inr (impl data scale (the M))
        | None \<Rightarrow> DoAddScaledMassMatrix e data scale (the M))"

text \<open>
  Both calls write through the same pointer \<open>D\<close>: the second one receives the buffer the
  first one left. An exception of the first call ends the operation.
\<close>

definition AddScaledDampingMatrix ::
  "('a::comm_ring_1, 's, 'd, 'c) FemElement \<Rightarrow> 'd \<Rightarrow> 'a \<Rightarrow> 'a mat option \<Rightarrow> error + 'a mat" where
  "AddScaledDampingMatrix e data scale D =
     DRAKE_ASSERT (D \<noteq> None)
       (let alpha = mass_coeff_alpha (damping_model e);
            beta = stiffness_coeff_beta (damping_model e)
        in case AddScaledMassMatrix e data (scale * alpha) D of
             Inl err \<Rightarrow> Inl err
           | Inr D1 \<Rightarrow> AddScaledStiffnessMatrix e data (scale * beta) (Some D1))"

definition CalcTangentMatrix ::
  "('a::comm_ring_1, 's, 'd, 'c) FemElement \<Rightarrow> 'd \<Rightarrow> 'a \<times> 'a \<times> 'a \<Rightarrow> 'a mat option
     \<Rightarrow> error + 'a mat" where
  "CalcTangentMatrix e data weights tangent_matrix =
     DRAKE_DEMAND (tangent_matrix \<noteq> None)
       (case weights of (w0, w1, w2) \<Rightarrow>
          (case AddScaledStiffnessMatrix e data
                  (w0 + w1 * stiffness_coeff_beta (damping_model e))
                  (Some (setZero_mat (the tangent_matrix))) of
             Inl err \<Rightarrow> Inl err
           | Inr T1 \<Rightarrow>
               AddScaledMassMatrix e data
                 (w2 + w1 * mass_coeff_alpha (damping_model e)) (Some T1)))"

text \<open>
  The loop \<open>for (i = 0; i < num_nodes; ++i) stacked_gravity.segment<3>(3 * i) = gravity_\<close>
  over a vector of \<open>num_dofs\<close> entries whose initial contents \<open>init\<close> are indeterminate.
  The traits give \<open>num_dofs = 3 * num_nodes\<close>, so every segment lies inside the vector.
\<close>

definition stacked_gravity_loop :: "nat \<Rightarrow> 'a vec \<Rightarrow> 'a vec \<Rightarrow> 'a vec" where
  "stacked_gravity_loop n gravity init =
     fold (\<lambda>i buf. assign_segment (3 * i) gravity buf) [0..<n] init"

text \<open>
  \<open>AddScaledGravityForce\<close>: the mass matrix is accumulated with scale 1 into a local
  matrix that starts as \<open>Zero()\<close>; then \<open>*force += scale * mass_matrix * stacked_gravity\<close>.
\<close>

definition AddScaledGravityForce ::
  "('a::comm_ring_1, 's, 'd, 'c) FemElement \<Rightarrow> 'd \<Rightarrow> 'a \<Rightarrow> 'a vec option \<Rightarrow> error + 'a vec" where
  "AddScaledGravityForce e data scale force =
     (case AddScaledMassMatrix e data 1 (Some (Zero_mat (num_dofs e) (num_dofs e))) of
        Inl err \<Rightarrow> Inl err
      | Inr mass_matrix \<Rightarrow>
          (let stacked_gravity =
                 stacked_gravity_loop (num_nodes e) (gravity_vector e)
                   (replicate (num_dofs e) 0)
           in Inr (vec_add (the force)
                     (mat_vec (mat_scale scale mass_matrix) stacked_gravity))))"

text \<open>
  \<open>AddScaledExternalForce\<close> calls \<open>AddScaledGravityForce\<close> and \<open>DoAddScaledExternalForce\<close>
  by their unqualified names on \<open>this\<close>, not through
  \<open>static_cast<const DerivedElement*>(this)\<close>: inside the non-virtual base class both
  names denote the members of \<open>FemElement\<close> itself.
\<close>

definition AddScaledExternalForce ::
  "('a::comm_ring_1, 's, 'd, 'c) FemElement \<Rightarrow> 'd \<Rightarrow> 'a \<Rightarrow> 'a vec option \<Rightarrow> error + 'a vec" where
  "AddScaledExternalForce e data scale external_force =
     DRAKE_ASSERT (external_force \<noteq> None)
       (case AddScaledGravityForce e data scale external_force of
          Inl err \<Rightarrow> Inl err
        | Inr f1 \<Rightarrow> DoAddScaledExternalForce e data scale f1)"

text \<open>
  The static \<open>ExtractElementDofs\<close>. \<open>nn\<close> is the constant \<open>num_nodes\<close>, the length of the
  \<open>std::array\<close> of node indices; \<open>element_dofs\<close> has \<open>3 * nn\<close> entries, indeterminate
  before the loop.
\<close>

function ExtractElementDofs_loop ::
  "nat \<Rightarrow> nat list \<Rightarrow> 'a vec \<Rightarrow> nat \<Rightarrow> 'a vec \<Rightarrow> error + 'a vec" where
  "ExtractElementDofs_loop nn nodes state_dofs i element_dofs =
     (if i < nn then
        DRAKE_ASSERT ((nodes ! i + 1) * 3 \<le> length state_dofs)
          (ExtractElementDofs_loop nn nodes state_dofs (i + 1)
             (assign_segment (i * 3) (segment 3 (nodes ! i * 3) state_dofs) element_dofs))
      else Inr element_dofs)"
  by pat_completeness auto
termination
  by (relation "measure (\<lambda>(nn, nodes, state_dofs, i, element_dofs). nn - i)") auto

definition ExtractElementDofs_static ::
  "nat \<Rightarrow> nat list \<Rightarrow> 'a::comm_ring_1 vec \<Rightarrow> error + 'a vec" where
  "ExtractElementDofs_static nn nodes state_dofs =
     ExtractElementDofs_loop nn nodes state_dofs 0 (replicate (3 * nn) 0)"

definition ExtractElementDofs ::
  "('a::comm_ring_1, 's, 'd, 'c) FemElement \<Rightarrow> 'a vec \<Rightarrow> error + 'a vec" where
  "ExtractElementDofs e state_dofs =
     ExtractElementDofs_static (num_nodes e) (node_indices e) state_dofs"

subsection \<open>Reference quantities of the specification\<close>

abbreviation alpha :: "('a, 's, 'd, 'c) FemElement \<Rightarrow> 'a" where
  "alpha e \<equiv> mass_coeff_alpha (damping_model e)"

abbreviation beta :: "('a, 's, 'd, 'c) FemElement \<Rightarrow> 'a" where
  "beta e \<equiv> stiffness_coeff_beta (damping_model e)"

text \<open>
  The kernels of a concrete class are parameters of the element. The base class documents
  the contract of \<open>DoAddScaledStiffnessMatrix\<close> and \<open>DoAddScaledMassMatrix\<close>: the buffer is
  the matrix to which the scaled matrix will be added. \<open>adds_scaled n impl data L\<close> states
  this contract for the kernel \<open>impl\<close> at \<open>data\<close>, with \<open>L\<close> the local \<open>n \<times> n\<close> matrix:
  on every \<open>n \<times> n\<close> buffer \<open>B\<close> and for every scale the kernel leaves \<open>B + scale\<cdot>L\<close>.
\<close>

definition adds_scaled ::
  "nat \<Rightarrow> ('d \<Rightarrow> 'a::comm_ring_1 \<Rightarrow> 'a mat \<Rightarrow> 'a mat) \<Rightarrow> 'd \<Rightarrow> 'a mat \<Rightarrow> bool" where
  "adds_scaled n impl data L =
     (is_mat n L \<and> (\<forall>scale B. is_mat n B \<longrightarrow> impl data scale B = mat_add B (mat_scale scale L)))"

text \<open>The Rayleigh damping matrix \<open>D = \<alpha>\<cdot>M + \<beta>\<cdot>K\<close> of the specification.\<close>

definition rayleigh_damping_matrix ::
  "'a::comm_ring_1 \<Rightarrow> 'a \<Rightarrow> 'a mat \<Rightarrow> 'a mat \<Rightarrow> 'a mat" where
  "rayleigh_damping_matrix a b M K = mat_add (mat_scale a M) (mat_scale b K)"

text \<open>The tangent matrix as the specification words it: \<open>w0\<cdot>K + w1\<cdot>D + w2\<cdot>M\<close>.\<close>

definition spec_tangent_matrix ::
  "'a::comm_ring_1 \<times> 'a \<times> 'a \<Rightarrow> 'a \<Rightarrow> 'a \<Rightarrow> 'a mat \<Rightarrow> 'a mat \<Rightarrow> 'a mat" where
  "spec_tangent_matrix weights a b K M =
     (case weights of (w0, w1, w2) \<Rightarrow>
        mat_add (mat_add (mat_scale w0 K) (mat_scale w1 (rayleigh_damping_matrix a b M K)))
                (mat_scale w2 M))"

subsection \<open>A concrete element for instances\<close>

text \<open>
  A concrete two-node element (six dofs) on which the theorems are instantiated. Its
  residual kernel adds a constant vector, its stiffness and mass kernels add the scaled
  local matrix, the local mass matrix being the identity, and its class declares an
  external-force hook that adds \<open>scale\<close> to every entry.
\<close>

definition accumulate_kernel :: "'a::comm_ring_1 mat \<Rightarrow> 'd \<Rightarrow> 'a \<Rightarrow> 'a mat \<Rightarrow> 'a mat" where
  "accumulate_kernel L data scale B = mat_add B (mat_scale scale L)"

definition example_K :: "real mat" where
  "example_K =
     [[ 2, -1,  0,  0,  0,  0],
      [-1,  2, -1,  0,  0,  0],
      [ 0, -1,  2, -1,  0,  0],
      [ 0,  0, -1,  2, -1,  0],
      [ 0,  0,  0, -1,  2, -1],
      [ 0,  0,  0,  0, -1,  2]]"

definition example_M :: "real mat" where
  "example_M =
     [[1, 0, 0, 0, 0, 0],
      [0, 1, 0, 0, 0, 0],
      [0, 0, 1, 0, 0, 0],
      [0, 0, 0, 1, 0, 0],
      [0, 0, 0, 0, 1, 0],
      [0, 0, 0, 0, 0, 1]]"

definition example_residual :: "real vec" where
  "example_residual = [1, 2, 3, 4, 5, 6]"

definition ExampleElement :: "(real, unit, unit) DerivedElement" where
  "ExampleElement =
     \<lparr> type_name = ''ExampleElement'',
       derived_DoComputeData = Some (\<lambda>state. ()),
       derived_DoCalcResidual = Some (\<lambda>data r. vec_add r example_residual),
       derived_DoAddScaledStiffnessMatrix = Some (accumulate_kernel example_K),
       derived_DoAddScaledMassMatrix = Some (accumulate_kernel example_M),
       derived_DoAddScaledExternalForce =
         Some (\<lambda>data scale f. vec_add f (replicate 6 scale)) \<rparr>"

definition example_element :: "(real, unit, unit, unit) FemElement" where
  "example_element =
     FemElement_ctor 2 6 ExampleElement 0 [1, 0] ()
       \<lparr> mass_coeff_alpha = 2, stiffness_coeff_beta = 3 \<rparr>"

text \<open>A concrete class that declares no kernel at all.\<close>

definition BareElement :: "(real, unit, unit) DerivedElement" where
  "BareElement =
     \<lparr> type_name = ''BareElement'',
       derived_DoComputeData = None,
       derived_DoCalcResidual = None,
       derived_DoAddScaledStiffnessMatrix = None,
       derived_DoAddScaledMassMatrix = None,
       derived_DoAddScaledExternalForce = None \<rparr>"

definition bare_element :: "(real, unit, unit, unit) FemElement" where
  "bare_element =
     FemElement_ctor 2 6 BareElement 0 [1, 0] ()
       \<lparr> mass_coeff_alpha = 2, stiffness_coeff_beta = 3 \<rparr>"

section \<open>Properties\<close>

subsection \<open>Entries of sums and multiples\<close>

lemma length_vec_add: "length (vec_add u v) = min (length u) (length v)"
  by (simp add: vec_add_def)

lemma nth_vec_add: "i < length u \<Longrightarrow> i < length v \<Longrightarrow> vec_add u v ! i = u ! i + v ! i"
  by (simp add: vec_add_def)

lemma length_vec_scale: "length (vec_scale s v) = length v"
  by (simp add: vec_scale_def)

lemma nth_vec_scale: "i < length v \<Longrightarrow> vec_scale s v ! i = s * v ! i"
  by (simp add: vec_scale_def)

lemma length_mat_add: "length (mat_add A B) = min (length A) (length B)"
  by (simp add: mat_add_def)

lemma nth_mat_add:
  "i < length A \<Longrightarrow> i < length B \<Longrightarrow> mat_add A B ! i = vec_add (A ! i) (B ! i)"
  by (simp add: mat_add_def)

lemma length_mat_scale: "length (mat_scale s A) = length A"
  by (simp add: mat_scale_def)

lemma nth_mat_scale: "i < length A \<Longrightarrow> mat_scale s A ! i = vec_scale s (A ! i)"
  by (simp add: mat_scale_def)

lemma is_mat_length: "is_mat n A \<Longrightarrow> length A = n"
  by (simp add: is_mat_def)

lemma is_mat_row: "is_mat n A \<Longrightarrow> i < n \<Longrightarrow> length (A ! i) = n"
  by (simp add: is_mat_def list_all_length)

lemma is_mat_mat_add: "is_mat n A \<Longrightarrow> is_mat n B \<Longrightarrow> is_mat n (mat_add A B)"
  by (simp add: is_mat_def list_all_length length_mat_add nth_mat_add length_vec_add)

lemma is_mat_mat_scale: "is_mat n A \<Longrightarrow> is_mat n (mat_scale s A)"
  by (simp add: is_mat_def list_all_length length_mat_scale nth_mat_scale length_vec_scale)

lemma is_mat_setZero: "is_mat n A \<Longrightarrow> is_mat n (setZero_mat A)"
  by (simp add: is_mat_def list_all_length setZero_mat_def)

lemma is_mat_Zero: "is_mat n (Zero_mat n n)"
  by (simp add: is_mat_def list_all_length Zero_mat_def)

lemma entry_mat_add:
  "is_mat n A \<Longrightarrow> is_mat n B \<Longrightarrow> i < n \<Longrightarrow> j < n \<Longrightarrow>
     mat_add A B ! i ! j = A ! i ! j + B ! i ! j"
  by (simp add: nth_mat_add nth_vec_add is_mat_length is_mat_row)

lemma entry_mat_scale:
  "is_mat n A \<Longrightarrow> i < n \<Longrightarrow> j < n \<Longrightarrow> mat_scale s A ! i ! j = s * A ! i ! j"
  by (simp add: nth_mat_scale nth_vec_scale is_mat_length is_mat_row)

lemma entry_setZero: "is_mat n A \<Longrightarrow> i < n \<Longrightarrow> j < n \<Longrightarrow> setZero_mat A ! i ! j = 0"
  by (simp add: setZero_mat_def is_mat_length is_mat_row)

lemma entry_Zero: "i < n \<Longrightarrow> j < n \<Longrightarrow> Zero_mat n n ! i ! j = 0"
  by (simp add: Zero_mat_def)

lemma mat_eqI:
  assumes A: "is_mat n A" and B: "is_mat n B"
    and entries: "\<And>i j. i < n \<Longrightarrow> j < n \<Longrightarrow> A ! i ! j = B ! i ! j"
  shows "A = B"
proof (rule nth_equalityI)
  show "length A = length B"
    using A B by (simp add: is_mat_length)
next
  fix i
  assume "i < length A"
  with A have i: "i < n"
    by (simp add: is_mat_length)
  show "A ! i = B ! i"
  proof (rule nth_equalityI)
    show "length (A ! i) = length (B ! i)"
      using i A B by (simp add: is_mat_row)
  next
    fix j
    assume "j < length (A ! i)"
    with i A have "j < n"
      by (simp add: is_mat_row)
    with i show "A ! i ! j = B ! i ! j"
      by (rule entries)
  qed
qed

lemma mat_add_setZero:
  assumes "is_mat n T" "is_mat n A"
  shows "mat_add (setZero_mat T) A = A"
  using assms
  by (intro mat_eqI[of n]) (simp_all add: is_mat_mat_add is_mat_setZero entry_mat_add[of n] entry_setZero[of n])

lemma mat_add_Zero: "is_mat n A \<Longrightarrow> mat_add (Zero_mat n n) A = A"
  by (intro mat_eqI[of n]) (simp_all add: is_mat_mat_add is_mat_Zero entry_mat_add[of n] entry_Zero)

lemma mat_add_twice:
  assumes "is_mat n X" "is_mat n K"
  shows "mat_add (mat_add X (mat_scale s K)) (mat_scale s K) = mat_add X (mat_scale (2 * s) K)"
  using assms
  by (intro mat_eqI[of n])
     (simp_all add: is_mat_mat_add is_mat_mat_scale entry_mat_add[of n] entry_mat_scale[of n]
        algebra_simps)

lemma rayleigh_fold:
  assumes "is_mat n K" "is_mat n M"
  shows "mat_add (mat_scale (w0 + w1 * b) K) (mat_scale (w2 + w1 * a) M) =
         spec_tangent_matrix (w0, w1, w2) a b K M"
  using assms unfolding spec_tangent_matrix_def rayleigh_damping_matrix_def prod.case
  by (intro mat_eqI[of n])
     (simp_all add: is_mat_mat_add is_mat_mat_scale entry_mat_add[of n] entry_mat_scale[of n]
        algebra_simps)

lemma damping_fold:
  assumes "is_mat n D" "is_mat n K" "is_mat n M"
  shows "mat_add (mat_add D (mat_scale (s * a) M)) (mat_scale (s * b) K) =
         mat_add D (mat_scale s (rayleigh_damping_matrix a b M K))"
  using assms unfolding rayleigh_damping_matrix_def
  by (intro mat_eqI[of n])
     (simp_all add: is_mat_mat_add is_mat_mat_scale entry_mat_add[of n] entry_mat_scale[of n]
        algebra_simps)

lemma mat_scale_twice:
  assumes "is_mat n M"
  shows "mat_scale (2 * s) M = mat_scale 2 (mat_scale s M)"
  using assms
  by (intro mat_eqI[of n]) (simp_all add: is_mat_mat_scale entry_mat_scale[of n] algebra_simps)

lemma vec_add_setZero: "vec_add (setZero_vec r) c = take (length r) c"
proof (induction r arbitrary: c)
  case Nil
  show ?case by (simp add: vec_add_def setZero_vec_def)
next
  case (Cons x r)
  then show ?case
    by (cases c) (simp_all add: vec_add_def setZero_vec_def)
qed

lemma vec_add_take: "vec_add f (take (length f) g) = vec_add f g"
proof (induction f arbitrary: g)
  case Nil
  show ?case by (simp add: vec_add_def)
next
  case (Cons x f)
  then show ?case
    by (cases g) (simp_all add: vec_add_def)
qed

subsection \<open>The operations on a buffer that is present\<close>

lemma AddScaledStiffnessMatrix_Some:
  "derived_DoAddScaledStiffnessMatrix (derived e) = Some impl \<Longrightarrow>
     AddScaledStiffnessMatrix e data s (Some K) = Inr (impl data s K)"
  by (simp add: AddScaledStiffnessMatrix_def DRAKE_ASSERT_def)

lemma AddScaledMassMatrix_Some:
  "derived_DoAddScaledMassMatrix (derived e) = Some impl \<Longrightarrow>
     AddScaledMassMatrix e data s (Some M) = Inr (impl data s M)"
  by (simp add: AddScaledMassMatrix_def DRAKE_ASSERT_def)

lemma adds_scaledD:
  "adds_scaled n impl data L \<Longrightarrow> is_mat n B \<Longrightarrow> impl data s B = mat_add B (mat_scale s L)"
  by (simp add: adds_scaled_def)

lemma adds_scaled_is_mat: "adds_scaled n impl data L \<Longrightarrow> is_mat n L"
  by (simp add: adds_scaled_def)

lemma adds_scaled_accumulate_kernel: "is_mat n L \<Longrightarrow> adds_scaled n (accumulate_kernel L) data L"
  by (simp add: adds_scaled_def accumulate_kernel_def)

lemma is_mat_example_K: "is_mat 6 example_K"
  by (simp add: is_mat_def example_K_def)

lemma is_mat_example_M: "is_mat 6 example_M"
  by (simp add: is_mat_def example_M_def)

lemma derived_example_element: "derived example_element = ExampleElement"
  by (simp add: example_element_def FemElement_ctor_def)

lemma example_stiffness_kernel:
  "derived_DoAddScaledStiffnessMatrix (derived example_element) = Some (accumulate_kernel example_K)"
  by (simp add: derived_example_element ExampleElement_def)

lemma example_mass_kernel:
  "derived_DoAddScaledMassMatrix (derived example_element) = Some (accumulate_kernel example_M)"
  by (simp add: derived_example_element ExampleElement_def)

subsection \<open>Null buffers\<close>

text \<open>
  Claim C8. A null output buffer passed to \<open>CalcResidual\<close>, \<open>CalcTangentMatrix\<close>,
  \<open>AddScaledStiffnessMatrix\<close>, \<open>AddScaledMassMatrix\<close>, \<open>AddScaledDampingMatrix\<close> or
  \<open>AddScaledExternalForce\<close> fails with the assertion failure, for every element and
  every data. The element is arbitrary, so the failure is also the result for an element
  whose kernels are missing or would throw: the check comes before any kernel is
  reached.
\<close>

theorem null_buffer_fails_fast:
  "CalcResidual e data None = Inl AssertionFailure \<and>
   CalcTangentMatrix e data weights None = Inl AssertionFailure \<and>
   AddScaledStiffnessMatrix e data scale None = Inl AssertionFailure \<and>
   AddScaledMassMatrix e data scale None = Inl AssertionFailure \<and>
   AddScaledDampingMatrix e data scale None = Inl AssertionFailure \<and>
   AddScaledExternalForce e data scale None = Inl AssertionFailure"
  by (simp add: CalcResidual_def CalcTangentMatrix_def AddScaledStiffnessMatrix_def
      AddScaledMassMatrix_def AddScaledDampingMatrix_def AddScaledExternalForce_def
      DRAKE_ASSERT_def DRAKE_DEMAND_def)

subsection \<open>The residual\<close>

text \<open>
  Claim C2. \<open>CalcResidual\<close> hands the concrete residual kernel the zeroed vector, whatever
  the buffer held before; with a kernel that adds a constant contribution \<open>c\<close> to the
  vector it is given, \<open>CalcResidual(data, r)\<close> yields exactly \<open>c\<close> for every prior
  content of \<open>r\<close>. The lengths are those fixed by the type \<open>Vector<T, num_dofs>\<close>.
\<close>

theorem CalcResidual_starts_from_zero:
  assumes kernel: "derived_DoCalcResidual (derived e) = Some impl"
    and adds_c: "\<forall>v. length v = n \<longrightarrow> impl data v = vec_add v c"
    and r: "length r = n" and c: "length c = n"
  shows "CalcResidual e data (Some r) = Inr (impl data (setZero_vec r)) \<and>
         CalcResidual e data (Some r) = Inr c"
proof -
  have call: "CalcResidual e data (Some r) = Inr (impl data (setZero_vec r))"
    using kernel by (simp add: CalcResidual_def DRAKE_ASSERT_def)
  have "length (setZero_vec r) = n"
    using r by (simp add: setZero_vec_def)
  with adds_c have "impl data (setZero_vec r) = vec_add (setZero_vec r) c"
    by simp
  also have "\<dots> = c"
    using r c by (simp add: vec_add_setZero)
  finally show ?thesis
    using call by simp
qed

theorem CalcResidual_starts_from_zero_witness:
  "CalcResidual example_element () (Some [7, 7, 7, 7, 7, 7]) = Inr [1, 2, 3, 4, 5, 6]"
proof -
  have k: "derived_DoCalcResidual (derived example_element) = Some (\<lambda>data r. vec_add r example_residual)"
    by (simp add: derived_example_element ExampleElement_def)
  have a: "\<forall>v. length v = 6 \<longrightarrow> (\<lambda>data r. vec_add r example_residual) () v = vec_add v example_residual"
    by simp
  have "length [7, 7, 7, 7, 7, 7 :: real] = 6" "length example_residual = 6"
    by (simp_all add: example_residual_def)
  from CalcResidual_starts_from_zero [OF k a this, THEN conjunct2]
  show ?thesis
    by (simp add: example_residual_def)
qed

subsection \<open>Accumulation of stiffness and mass\<close>

text \<open>
  Claim C3. \<open>AddScaledStiffnessMatrix\<close> and \<open>AddScaledMassMatrix\<close> do not zero the buffer:
  they hand the concrete kernel the buffer as the caller holds it, and for a concrete
  element whose kernels add the scaled local matrices \<open>K\<close> and \<open>M\<close> they turn a buffer
  holding \<open>X\<close> into \<open>X + s\<cdot>K\<close> and \<open>X + s\<cdot>M\<close>; two calls of
  \<open>AddScaledStiffnessMatrix\<close> with the same scale \<open>s\<close> on a buffer that starts as \<open>X\<close>
  leave \<open>X + 2\<cdot>s\<cdot>K\<close>.
\<close>

theorem AddScaled_accumulates:
  assumes "derived_DoAddScaledStiffnessMatrix (derived e) = Some kK" "adds_scaled n kK data K"
    and "derived_DoAddScaledMassMatrix (derived e) = Some kM" "adds_scaled n kM data M"
    and X: "is_mat n X"
  shows "AddScaledStiffnessMatrix e data s (Some X) = Inr (kK data s X) \<and>
         AddScaledMassMatrix e data s (Some X) = Inr (kM data s X) \<and>
         AddScaledStiffnessMatrix e data s (Some X) = Inr (mat_add X (mat_scale s K)) \<and>
         AddScaledMassMatrix e data s (Some X) = Inr (mat_add X (mat_scale s M)) \<and>
         (case AddScaledStiffnessMatrix e data s (Some X) of
            Inl err \<Rightarrow> Inl err
          | Inr X1 \<Rightarrow> AddScaledStiffnessMatrix e data s (Some X1)) =
           Inr (mat_add X (mat_scale (2 * s) K))"
proof -
  have K: "is_mat n K"
    using assms(2) by (rule adds_scaled_is_mat)
  have one: "AddScaledStiffnessMatrix e data s (Some X) = Inr (mat_add X (mat_scale s K))"
    using assms(1,2) X by (simp add: AddScaledStiffnessMatrix_Some adds_scaledD)
  have mass: "AddScaledMassMatrix e data s (Some X) = Inr (mat_add X (mat_scale s M))"
    using assms(3,4) X by (simp add: AddScaledMassMatrix_Some adds_scaledD)
  have "is_mat n (mat_add X (mat_scale s K))"
    using X K by (simp add: is_mat_mat_add is_mat_mat_scale)
  then have "AddScaledStiffnessMatrix e data s (Some (mat_add X (mat_scale s K))) =
      Inr (mat_add (mat_add X (mat_scale s K)) (mat_scale s K))"
    using assms(1,2) by (simp add: AddScaledStiffnessMatrix_Some adds_scaledD)
  then have two: "(case AddScaledStiffnessMatrix e data s (Some X) of
            Inl err \<Rightarrow> Inl err
          | Inr X1 \<Rightarrow> AddScaledStiffnessMatrix e data s (Some X1)) =
           Inr (mat_add X (mat_scale (2 * s) K))"
    using one X K by (simp add: mat_add_twice)
  have pass_K: "AddScaledStiffnessMatrix e data s (Some X) = Inr (kK data s X)"
    using assms(1) by (rule AddScaledStiffnessMatrix_Some)
  have pass_M: "AddScaledMassMatrix e data s (Some X) = Inr (kM data s X)"
    using assms(3) by (rule AddScaledMassMatrix_Some)
  show ?thesis
    by (intro conjI pass_K pass_M one mass two)
qed

theorem AddScaled_accumulates_witness:
  "AddScaledStiffnessMatrix example_element () 5 (Some example_M) =
     Inr [[11, -5,  0,  0,  0,  0],
          [-5, 11, -5,  0,  0,  0],
          [ 0, -5, 11, -5,  0,  0],
          [ 0,  0, -5, 11, -5,  0],
          [ 0,  0,  0, -5, 11, -5],
          [ 0,  0,  0,  0, -5, 11]] \<and>
   AddScaledMassMatrix example_element () 5 (Some example_M) =
     Inr [[6, 0, 0, 0, 0, 0],
          [0, 6, 0, 0, 0, 0],
          [0, 0, 6, 0, 0, 0],
          [0, 0, 0, 6, 0, 0],
          [0, 0, 0, 0, 6, 0],
          [0, 0, 0, 0, 0, 6]] \<and>
   (case AddScaledStiffnessMatrix example_element () 5 (Some example_M) of
      Inl err \<Rightarrow> Inl err
    | Inr X1 \<Rightarrow> AddScaledStiffnessMatrix example_element () 5 (Some X1)) =
     Inr [[ 21, -10,   0,   0,   0,   0],
          [-10,  21, -10,   0,   0,   0],
          [  0, -10,  21, -10,   0,   0],
          [  0,   0, -10,  21, -10,   0],
          [  0,   0,   0, -10,  21, -10],
          [  0,   0,   0,   0, -10,  21]]"
proof -
  have v1: "mat_add example_M (mat_scale 5 example_K) =
     [[11, -5,  0,  0,  0,  0],
      [-5, 11, -5,  0,  0,  0],
      [ 0, -5, 11, -5,  0,  0],
      [ 0,  0, -5, 11, -5,  0],
      [ 0,  0,  0, -5, 11, -5],
      [ 0,  0,  0,  0, -5, 11]]"
    by (simp add: example_K_def example_M_def mat_add_def mat_scale_def vec_add_def vec_scale_def)
  have v2: "mat_add example_M (mat_scale 5 example_M) =
     [[6, 0, 0, 0, 0, 0],
      [0, 6, 0, 0, 0, 0],
      [0, 0, 6, 0, 0, 0],
      [0, 0, 0, 6, 0, 0],
      [0, 0, 0, 0, 6, 0],
      [0, 0, 0, 0, 0, 6]]"
    by (simp add: example_M_def mat_add_def mat_scale_def vec_add_def vec_scale_def)
  have v3: "mat_add example_M (mat_scale (2 * 5) example_K) =
     [[ 21, -10,   0,   0,   0,   0],
      [-10,  21, -10,   0,   0,   0],
      [  0, -10,  21, -10,   0,   0],
      [  0,   0, -10,  21, -10,   0],
      [  0,   0,   0, -10,  21, -10],
      [  0,   0,   0,   0, -10,  21]]"
    by (simp add: example_K_def example_M_def mat_add_def mat_scale_def vec_add_def vec_scale_def)
  from AddScaled_accumulates [where s = 5 and data = "()", OF example_stiffness_kernel
      adds_scaled_accumulate_kernel [OF is_mat_example_K] example_mass_kernel
      adds_scaled_accumulate_kernel [OF is_mat_example_M] is_mat_example_M,
      THEN conjunct2, THEN conjunct2]
  show ?thesis
    unfolding v1 v2 v3 .
qed

lemma example_damping:
  "alpha example_element = 2" "beta example_element = 3"
  by (simp_all add: example_element_def FemElement_ctor_def)

subsection \<open>Linearity of the mass accumulation in the scale\<close>

text \<open>
  Claim C9. For a concrete element whose mass kernel adds the scaled local matrix \<open>M\<close>,
  \<open>AddScaledMassMatrix(data, 2s, \<cdot>)\<close> applied to a zeroed buffer succeeds and equals twice
  the result of \<open>AddScaledMassMatrix(data, s, \<cdot>)\<close> applied to a zeroed buffer, for every
  scalar \<open>s\<close>.
\<close>

theorem AddScaledMassMatrix_linear_in_scale:
  assumes "derived_DoAddScaledMassMatrix (derived e) = Some kM" "adds_scaled n kM data M"
  shows "AddScaledMassMatrix e data s (Some (Zero_mat n n)) = Inr (mat_scale s M) \<and>
         AddScaledMassMatrix e data (2 * s) (Some (Zero_mat n n)) =
           map_sum id (mat_scale 2) (AddScaledMassMatrix e data s (Some (Zero_mat n n)))"
proof -
  have M: "is_mat n M"
    using assms(2) by (rule adds_scaled_is_mat)
  have on_zero: "AddScaledMassMatrix e data t (Some (Zero_mat n n)) = Inr (mat_scale t M)" for t
    using assms M
    by (simp add: AddScaledMassMatrix_Some adds_scaledD is_mat_Zero mat_add_Zero is_mat_mat_scale)
  show ?thesis
    using M by (simp add: on_zero mat_scale_twice [of n])
qed

theorem AddScaledMassMatrix_linear_in_scale_witness:
  "AddScaledMassMatrix example_element () 7 (Some (Zero_mat 6 6)) =
     Inr [[7, 0, 0, 0, 0, 0],
          [0, 7, 0, 0, 0, 0],
          [0, 0, 7, 0, 0, 0],
          [0, 0, 0, 7, 0, 0],
          [0, 0, 0, 0, 7, 0],
          [0, 0, 0, 0, 0, 7]] \<and>
   AddScaledMassMatrix example_element () (2 * 7) (Some (Zero_mat 6 6)) =
     Inr [[14, 0, 0, 0, 0, 0],
          [0, 14, 0, 0, 0, 0],
          [0, 0, 14, 0, 0, 0],
          [0, 0, 0, 14, 0, 0],
          [0, 0, 0, 0, 14, 0],
          [0, 0, 0, 0, 0, 14]]"
proof -
  note inst = AddScaledMassMatrix_linear_in_scale [where s = 7 and data = "()",
      OF example_mass_kernel adds_scaled_accumulate_kernel [OF is_mat_example_M]]
  have v: "mat_scale 7 example_M =
     [[7, 0, 0, 0, 0, 0],
      [0, 7, 0, 0, 0, 0],
      [0, 0, 7, 0, 0, 0],
      [0, 0, 0, 7, 0, 0],
      [0, 0, 0, 0, 7, 0],
      [0, 0, 0, 0, 0, 7]]"
    by (simp add: example_M_def mat_scale_def vec_scale_def)
  from inst have one: "AddScaledMassMatrix example_element () 7 (Some (Zero_mat 6 6)) =
      Inr (mat_scale 7 example_M)"
    by (rule conjunct1)
  from inst have "AddScaledMassMatrix example_element () (2 * 7) (Some (Zero_mat 6 6)) =
      map_sum id (mat_scale 2) (Inr (mat_scale 7 example_M))"
    unfolding one by (rule conjunct2)
  then show ?thesis
    unfolding one v by (simp add: mat_scale_def vec_scale_def)
qed

subsection \<open>The tangent matrix\<close>

text \<open>
  Claim C1. For a concrete element whose stiffness and mass kernels add the scaled local
  matrices \<open>K\<close> and \<open>M\<close>, and for every weight triple \<open>(w0, w1, w2)\<close> and every prior
  content \<open>T\<close> of the buffer, \<open>CalcTangentMatrix\<close> accumulates into the zeroed buffer; its
  result is \<open>(w0 + w1\<cdot>\<beta>)\<cdot>K + (w2 + w1\<cdot>\<alpha>)\<cdot>M\<close>, which is the combination
  \<open>w0\<cdot>K + w1\<cdot>D + w2\<cdot>M\<close> of the specification with \<open>D = \<alpha>\<cdot>M + \<beta>\<cdot>K\<close>; for the
  weights \<open>(0, 1, 0)\<close> it is \<open>\<alpha>\<cdot>M + \<beta>\<cdot>K\<close>.
\<close>

theorem CalcTangentMatrix_folds_rayleigh:
  assumes "derived_DoAddScaledStiffnessMatrix (derived e) = Some kK" "adds_scaled n kK data K"
    and "derived_DoAddScaledMassMatrix (derived e) = Some kM" "adds_scaled n kM data M"
    and T: "is_mat n T"
  shows "CalcTangentMatrix e data (w0, w1, w2) (Some T) =
           Inr (mat_add (mat_add (setZero_mat T) (mat_scale (w0 + w1 * beta e) K))
                        (mat_scale (w2 + w1 * alpha e) M)) \<and>
         CalcTangentMatrix e data (w0, w1, w2) (Some T) =
           Inr (mat_add (mat_scale (w0 + w1 * beta e) K) (mat_scale (w2 + w1 * alpha e) M)) \<and>
         CalcTangentMatrix e data (w0, w1, w2) (Some T) =
           Inr (spec_tangent_matrix (w0, w1, w2) (alpha e) (beta e) K M) \<and>
         CalcTangentMatrix e data (0, 1, 0) (Some T) =
           Inr (rayleigh_damping_matrix (alpha e) (beta e) M K)"
proof -
  have K: "is_mat n K" and M: "is_mat n M"
    using assms(2,4) by (simp_all add: adds_scaled_is_mat)
  have Z: "is_mat n (setZero_mat T)"
    using T by (rule is_mat_setZero)
  have code: "CalcTangentMatrix e data (u0, u1, u2) (Some T) =
      Inr (mat_add (mat_add (setZero_mat T) (mat_scale (u0 + u1 * beta e) K))
                   (mat_scale (u2 + u1 * alpha e) M))" for u0 u1 u2
    using assms(1-4) Z K
    by (simp add: CalcTangentMatrix_def DRAKE_DEMAND_def AddScaledStiffnessMatrix_Some
        AddScaledMassMatrix_Some adds_scaledD is_mat_mat_add is_mat_mat_scale)
  have zero: "mat_add (setZero_mat T) (mat_scale c K) = mat_scale c K" for c
    using T K by (simp add: mat_add_setZero [of n] is_mat_mat_scale)
  have "spec_tangent_matrix (0, 1, 0) (alpha e) (beta e) K M =
      rayleigh_damping_matrix (alpha e) (beta e) M K"
    unfolding spec_tangent_matrix_def rayleigh_damping_matrix_def prod.case
    using K M
    by (intro mat_eqI [of n])
       (simp_all add: is_mat_mat_add is_mat_mat_scale entry_mat_add [of n] entry_mat_scale [of n])
  then have "CalcTangentMatrix e data (0, 1, 0) (Some T) =
      Inr (rayleigh_damping_matrix (alpha e) (beta e) M K)"
    using rayleigh_fold [OF K M, of 0 1 "beta e" 0 "alpha e"] by (simp add: code zero)
  then show ?thesis
    using rayleigh_fold [OF K M, of w0 w1 "beta e" w2 "alpha e"] by (simp add: code zero)
qed

theorem CalcTangentMatrix_folds_rayleigh_witness:
  "CalcTangentMatrix example_element () (1, 10, 100) (Some example_K) =
     Inr [[182, -31,   0,   0,   0,   0],
          [-31, 182, -31,   0,   0,   0],
          [  0, -31, 182, -31,   0,   0],
          [  0,   0, -31, 182, -31,   0],
          [  0,   0,   0, -31, 182, -31],
          [  0,   0,   0,   0, -31, 182]] \<and>
   CalcTangentMatrix example_element () (0, 1, 0) (Some example_K) =
     Inr [[ 8, -3,  0,  0,  0,  0],
          [-3,  8, -3,  0,  0,  0],
          [ 0, -3,  8, -3,  0,  0],
          [ 0,  0, -3,  8, -3,  0],
          [ 0,  0,  0, -3,  8, -3],
          [ 0,  0,  0,  0, -3,  8]]"
proof -
  note inst = CalcTangentMatrix_folds_rayleigh [where data = "()" and ?w0.0 = 1 and ?w1.0 = 10
      and ?w2.0 = 100, OF example_stiffness_kernel adds_scaled_accumulate_kernel [OF is_mat_example_K]
      example_mass_kernel adds_scaled_accumulate_kernel [OF is_mat_example_M] is_mat_example_K]
  have v1: "spec_tangent_matrix (1, 10, 100) 2 3 example_K example_M =
     [[182, -31,   0,   0,   0,   0],
      [-31, 182, -31,   0,   0,   0],
      [  0, -31, 182, -31,   0,   0],
      [  0,   0, -31, 182, -31,   0],
      [  0,   0,   0, -31, 182, -31],
      [  0,   0,   0,   0, -31, 182]]"
    by (simp add: spec_tangent_matrix_def rayleigh_damping_matrix_def example_K_def
        example_M_def mat_add_def mat_scale_def vec_add_def vec_scale_def)
  have v2: "rayleigh_damping_matrix 2 3 example_M example_K =
     [[ 8, -3,  0,  0,  0,  0],
      [-3,  8, -3,  0,  0,  0],
      [ 0, -3,  8, -3,  0,  0],
      [ 0,  0, -3,  8, -3,  0],
      [ 0,  0,  0, -3,  8, -3],
      [ 0,  0,  0,  0, -3,  8]]"
    by (simp add: rayleigh_damping_matrix_def example_K_def
        example_M_def mat_add_def mat_scale_def vec_add_def vec_scale_def)
  from inst [THEN conjunct2, THEN conjunct2] show ?thesis
    unfolding example_damping v1 v2 .
qed

subsection \<open>The damping matrix\<close>

text \<open>
  Claim C4. For every element, data, scale \<open>s\<close> and buffer \<open>D\<close>, the effect of
  \<open>AddScaledDampingMatrix(data, s, D)\<close> is that of \<open>AddScaledMassMatrix(data, s\<cdot>\<alpha>, D)\<close>
  followed by \<open>AddScaledStiffnessMatrix(data, s\<cdot>\<beta>, D)\<close> on the same buffer; the concrete
  class has no damping kernel of its own. When the mass and stiffness kernels add the
  scaled local matrices \<open>M\<close> and \<open>K\<close>, it adds \<open>s\<cdot>(\<alpha>\<cdot>M + \<beta>\<cdot>K)\<close> to \<open>D\<close>, which is not
  zeroed.
\<close>

theorem AddScaledDampingMatrix_is_mass_then_stiffness:
  "AddScaledDampingMatrix e data s (Some D) =
     (case AddScaledMassMatrix e data (s * alpha e) (Some D) of
        Inl err \<Rightarrow> Inl err
      | Inr D1 \<Rightarrow> AddScaledStiffnessMatrix e data (s * beta e) (Some D1)) \<and>
   (derived_DoAddScaledStiffnessMatrix (derived e) = Some kK \<and> adds_scaled n kK data K \<and>
    derived_DoAddScaledMassMatrix (derived e) = Some kM \<and> adds_scaled n kM data M \<and>
    is_mat n D \<longrightarrow>
      AddScaledDampingMatrix e data s (Some D) =
        Inr (mat_add D (mat_scale s (rayleigh_damping_matrix (alpha e) (beta e) M K))))"
proof (intro conjI impI)
  show composition: "AddScaledDampingMatrix e data s (Some D) =
     (case AddScaledMassMatrix e data (s * alpha e) (Some D) of
        Inl err \<Rightarrow> Inl err
      | Inr D1 \<Rightarrow> AddScaledStiffnessMatrix e data (s * beta e) (Some D1))"
    by (simp add: AddScaledDampingMatrix_def DRAKE_ASSERT_def)
  assume contract:
    "derived_DoAddScaledStiffnessMatrix (derived e) = Some kK \<and> adds_scaled n kK data K \<and>
     derived_DoAddScaledMassMatrix (derived e) = Some kM \<and> adds_scaled n kM data M \<and>
     is_mat n D"
  then have kK: "derived_DoAddScaledStiffnessMatrix (derived e) = Some kK"
    and cK: "adds_scaled n kK data K"
    and kM: "derived_DoAddScaledMassMatrix (derived e) = Some kM"
    and cM: "adds_scaled n kM data M"
    and D: "is_mat n D"
    by simp_all
  have K: "is_mat n K" and M: "is_mat n M"
    using cK cM by (simp_all add: adds_scaled_is_mat)
  have mass: "AddScaledMassMatrix e data (s * alpha e) (Some D) =
      Inr (mat_add D (mat_scale (s * alpha e) M))"
    using kM cM D by (simp add: AddScaledMassMatrix_Some adds_scaledD)
  have "is_mat n (mat_add D (mat_scale (s * alpha e) M))"
    using D M by (simp add: is_mat_mat_add is_mat_mat_scale)
  then have "AddScaledStiffnessMatrix e data (s * beta e)
        (Some (mat_add D (mat_scale (s * alpha e) M))) =
      Inr (mat_add (mat_add D (mat_scale (s * alpha e) M)) (mat_scale (s * beta e) K))"
    using kK cK by (simp add: AddScaledStiffnessMatrix_Some adds_scaledD)
  then show "AddScaledDampingMatrix e data s (Some D) =
      Inr (mat_add D (mat_scale s (rayleigh_damping_matrix (alpha e) (beta e) M K)))"
    using D K M by (simp add: composition mass damping_fold [of n])
qed

theorem AddScaledDampingMatrix_is_mass_then_stiffness_witness:
  "AddScaledDampingMatrix example_element () 5 (Some example_M) =
     Inr [[ 41, -15,   0,   0,   0,   0],
          [-15,  41, -15,   0,   0,   0],
          [  0, -15,  41, -15,   0,   0],
          [  0,   0, -15,  41, -15,   0],
          [  0,   0,   0, -15,  41, -15],
          [  0,   0,   0,   0, -15,  41]]"
proof -
  have v: "mat_add example_M (mat_scale 5 (rayleigh_damping_matrix 2 3 example_M example_K)) =
     [[ 41, -15,   0,   0,   0,   0],
      [-15,  41, -15,   0,   0,   0],
      [  0, -15,  41, -15,   0,   0],
      [  0,   0, -15,  41, -15,   0],
      [  0,   0,   0, -15,  41, -15],
      [  0,   0,   0,   0, -15,  41]]"
    by (simp add: rayleigh_damping_matrix_def example_K_def
        example_M_def mat_add_def mat_scale_def vec_add_def vec_scale_def)
  have contract:
    "derived_DoAddScaledStiffnessMatrix (derived example_element) = Some (accumulate_kernel example_K) \<and>
     adds_scaled 6 (accumulate_kernel example_K) () example_K \<and>
     derived_DoAddScaledMassMatrix (derived example_element) = Some (accumulate_kernel example_M) \<and>
     adds_scaled 6 (accumulate_kernel example_M) () example_M \<and>
     is_mat 6 example_M"
    by (simp add: example_stiffness_kernel example_mass_kernel adds_scaled_accumulate_kernel
        is_mat_example_K is_mat_example_M)
  from AddScaledDampingMatrix_is_mass_then_stiffness [where s = 5, THEN conjunct2, rule_format, OF contract]
  show ?thesis
    unfolding example_damping v .
qed

subsection \<open>The external force\<close>

lemma AddScaledGravityForce_buffer:
  "AddScaledGravityForce e data s (Some f) =
     map_sum id (vec_add f) (AddScaledGravityForce e data s (Some (setZero_vec f)))"
  by (simp add: AddScaledGravityForce_def Let_def vec_add_setZero vec_add_take
      split: sum.splits)

text \<open>
  Claim C10. The mass matrix behind the gravity force is accumulated into a local matrix
  that starts at zero, and the optional hook reached from \<open>AddScaledExternalForce\<close> is
  the empty one of the base class, so what the operation adds does not depend on the
  caller's buffer: for every element, data, scale \<open>s\<close> and buffer \<open>f\<close>,
  \<open>AddScaledExternalForce(data, s, f)\<close> fails exactly when it fails on the zeroed buffer,
  and otherwise yields \<open>f\<close> plus the value it produces on the zeroed buffer.
\<close>

theorem AddScaledExternalForce_independent_of_buffer:
  "AddScaledExternalForce e data s (Some f) =
     map_sum id (vec_add f) (AddScaledExternalForce e data s (Some (setZero_vec f)))"
proof (cases "AddScaledGravityForce e data s (Some (setZero_vec f))")
  case (Inl err)
  then show ?thesis
    using AddScaledGravityForce_buffer [of e data s f]
    by (simp add: AddScaledExternalForce_def DRAKE_ASSERT_def)
next
  case (Inr g)
  then show ?thesis
    using AddScaledGravityForce_buffer [of e data s f]
    by (simp add: AddScaledExternalForce_def DRAKE_ASSERT_def DoAddScaledExternalForce_def)
qed

lemma example_gravity: "gravity_vector example_element = [0, 0, - 9.81]"
  by (simp add: example_element_def FemElement_ctor_def default_gravity_def)

lemma example_counts: "num_nodes example_element = 2" "num_dofs example_element = 6"
  by (simp_all add: example_element_def FemElement_ctor_def)

subsection \<open>Extraction of the element dofs\<close>

lemma length_segment: "offset + k \<le> length buf \<Longrightarrow> length (segment k offset buf) = k"
  by (simp add: segment_def)

lemma length_assign_segment:
  "offset + length seg \<le> length buf \<Longrightarrow> length (assign_segment offset seg buf) = length buf"
  by (simp add: assign_segment_def)

lemma take_assign_segment:
  "offset + length seg \<le> length buf \<Longrightarrow>
     take (offset + length seg) (assign_segment offset seg buf) = take offset buf @ seg"
  by (simp add: assign_segment_def)

lemma ExtractElementDofs_loop_blocks:
  assumes "length nodes = nn"
    and "\<forall>j<nn. (nodes ! j + 1) * 3 \<le> length state_dofs"
    and "i \<le> nn" and "length element_dofs = 3 * nn"
  shows "ExtractElementDofs_loop nn nodes state_dofs i element_dofs =
     Inr (take (3 * i) element_dofs @
          concat (map (\<lambda>k. segment 3 (k * 3) state_dofs) (drop i nodes)))"
  using assms
proof (induction nn nodes state_dofs i element_dofs rule: ExtractElementDofs_loop.induct)
  case (1 nn nodes state_dofs i element_dofs)
  show ?case
  proof (cases "i < nn")
    case False
    with "1.prems" show ?thesis
      by simp
  next
    case True
    let ?seg = "segment 3 (nodes ! i * 3) state_dofs"
    let ?buf = "assign_segment (i * 3) ?seg element_dofs"
    from True "1.prems" have bound: "(nodes ! i + 1) * 3 \<le> length state_dofs"
      by simp
    then have seg: "length ?seg = 3"
      by (simp add: length_segment)
    from True "1.prems" seg have fits: "i * 3 + length ?seg \<le> length element_dofs"
      by simp
    have buf: "length ?buf = 3 * nn"
      using fits "1.prems" by (simp add: length_assign_segment)
    have "ExtractElementDofs_loop nn nodes state_dofs (i + 1) ?buf =
        Inr (take (3 * (i + 1)) ?buf @
             concat (map (\<lambda>k. segment 3 (k * 3) state_dofs) (drop (i + 1) nodes)))"
      using True "1.prems" buf by (intro "1.IH") simp_all
    moreover have "take (3 * (i + 1)) ?buf = take (3 * i) element_dofs @ ?seg"
    proof -
      have e1: "3 * (i + 1) = i * 3 + length ?seg" and e2: "3 * i = i * 3"
        using seg by simp_all
      show ?thesis
        by (simp only: e1 e2 take_assign_segment [OF fits])
    qed
    moreover have "drop i nodes = nodes ! i # drop (i + 1) nodes"
      using True "1.prems" by (simp add: Cons_nth_drop_Suc)
    ultimately show ?thesis
      using True bound by (simp add: DRAKE_ASSERT_def)
  qed
qed

lemma nth_concat_blocks:
  assumes "\<forall>b \<in> set bs. length b = 3" and "i < length bs"
  shows "segment 3 (3 * i) (concat bs) = bs ! i"
  using assms
proof (induction bs arbitrary: i)
  case Nil
  then show ?case by simp
next
  case (Cons b bs)
  show ?case
  proof (cases i)
    case 0
    with Cons.prems show ?thesis
      by (simp add: segment_def)
  next
    case (Suc k)
    with Cons.prems have "segment 3 (3 * k) (concat bs) = bs ! k"
      by (intro Cons.IH) simp_all
    with Suc Cons.prems show ?thesis
      by (simp add: segment_def)
  qed
qed

lemma ExtractElementDofs_static_blocks:
  assumes nodes: "length nodes = nn"
    and bounds: "\<forall>i<nn. (nodes ! i + 1) * 3 \<le> length state_dofs"
  shows "ExtractElementDofs_static nn nodes state_dofs =
           Inr (concat (map (\<lambda>k. segment 3 (3 * k) state_dofs) nodes))"
  unfolding ExtractElementDofs_static_def
  using ExtractElementDofs_loop_blocks [OF nodes bounds, of 0 "replicate (3 * nn) 0"]
  by (simp add: mult.commute)

text \<open>
  Claim C5. For a node-index array of \<open>num_nodes\<close> entries and a global dof vector that
  is long enough for every indexed node, \<open>ExtractElementDofs\<close> returns a vector of
  \<open>3\<cdot>num_nodes\<close> entries whose block \<open>[3i, 3i+3)\<close> is the block of the global vector that
  starts at \<open>3\<cdot>node_indices[i]\<close>, for each local node \<open>i\<close> in order. For the node indices
  \<open>[2, 0, 1]\<close> and a global vector \<open>A @ B @ C @ \<dots>\<close> of blocks of three entries the
  result is \<open>C @ A @ B\<close>.
\<close>

theorem ExtractElementDofs_copies_blocks:
  "(length nodes = nn \<and> (\<forall>i<nn. (nodes ! i + 1) * 3 \<le> length state_dofs) \<longrightarrow>
      (\<exists>element_dofs.
         ExtractElementDofs_static nn nodes state_dofs = Inr element_dofs \<and>
         element_dofs = concat (map (\<lambda>k. segment 3 (3 * k) state_dofs) nodes) \<and>
         length element_dofs = 3 * nn \<and>
         (\<forall>i<nn. segment 3 (3 * i) element_dofs = segment 3 (3 * (nodes ! i)) state_dofs))) \<and>
   (length A = 3 \<and> length B = 3 \<and> length C = 3 \<longrightarrow>
      ExtractElementDofs_static 3 [2, 0, 1] (A @ B @ C @ rest) = Inr (C @ A @ B))"
proof (intro conjI impI)
  assume "length nodes = nn \<and> (\<forall>i<nn. (nodes ! i + 1) * 3 \<le> length state_dofs)"
  then have nodes: "length nodes = nn"
    and bounds: "\<forall>i<nn. (nodes ! i + 1) * 3 \<le> length state_dofs"
    by simp_all
  let ?blocks = "map (\<lambda>k. segment 3 (3 * k) state_dofs) nodes"
  have run: "ExtractElementDofs_static nn nodes state_dofs = Inr (concat ?blocks)"
    using nodes bounds by (rule ExtractElementDofs_static_blocks)
  have three: "\<forall>b \<in> set ?blocks. length b = 3"
  proof
    fix b
    assume "b \<in> set ?blocks"
    then obtain i where "i < nn" and b: "b = segment 3 (3 * (nodes ! i)) state_dofs"
      using nodes by (auto simp: in_set_conv_nth)
    with bounds have "3 * (nodes ! i) + 3 \<le> length state_dofs"
      by fastforce
    then show "length b = 3"
      unfolding b by (rule length_segment)
  qed
  then have len: "length (concat ?blocks) = 3 * nn"
    using nodes by (simp add: length_concat sum_list_triv cong: map_cong)
  have "segment 3 (3 * i) (concat ?blocks) = segment 3 (3 * (nodes ! i)) state_dofs"
    if "i < nn" for i
    using nth_concat_blocks [OF three, of i] that nodes by simp
  with run len show "\<exists>element_dofs.
         ExtractElementDofs_static nn nodes state_dofs = Inr element_dofs \<and>
         element_dofs = concat (map (\<lambda>k. segment 3 (3 * k) state_dofs) nodes) \<and>
         length element_dofs = 3 * nn \<and>
         (\<forall>i<nn. segment 3 (3 * i) element_dofs = segment 3 (3 * (nodes ! i)) state_dofs)"
    by simp
next
  assume "length A = 3 \<and> length B = 3 \<and> length C = 3"
  then have A: "length A = 3" and B: "length B = 3" and C: "length C = 3"
    by simp_all
  have "\<forall>i<3. ([2, 0, 1] ! i + 1) * 3 \<le> length (A @ B @ C @ rest)"
    using A B C by (simp add: less_Suc_eq numeral_3_eq_3)
  then have "ExtractElementDofs_static 3 [2, 0, 1] (A @ B @ C @ rest) =
      Inr (concat (map (\<lambda>k. segment 3 (3 * k) (A @ B @ C @ rest)) [2, 0, 1]))"
    by (intro ExtractElementDofs_static_blocks) simp_all
  then show "ExtractElementDofs_static 3 [2, 0, 1] (A @ B @ C @ rest) = Inr (C @ A @ B)"
    using A B C by (simp add: segment_def)
qed

theorem ExtractElementDofs_copies_blocks_witness:
  "ExtractElementDofs_static 2 [3, 1] [10, 11, 12, 20, 21, 22, 30, 31, 32, 40, 41, 42 :: int] =
     Inr [40, 41, 42, 20, 21, 22] \<and>
   ExtractElementDofs_static 3 [2, 0, 1] [10, 11, 12, 20, 21, 22, 30, 31, 32, 40, 41, 42 :: int] =
     Inr [30, 31, 32, 10, 11, 12, 20, 21, 22]"
proof -
  have h: "length [3, 1 :: nat] = 2 \<and>
      (\<forall>i<2. ([3, 1] ! i + 1) * 3 \<le> length [10, 11, 12, 20, 21, 22, 30, 31, 32, 40, 41, 42 :: int])"
    by (simp add: less_Suc_eq numeral_2_eq_2)
  from ExtractElementDofs_copies_blocks [THEN conjunct1, rule_format, OF h]
  have one: "ExtractElementDofs_static 2 [3, 1]
      [10, 11, 12, 20, 21, 22, 30, 31, 32, 40, 41, 42 :: int] = Inr [40, 41, 42, 20, 21, 22]"
    by (auto simp: segment_def)
  have "length [10, 11, 12 :: int] = 3 \<and> length [20, 21, 22 :: int] = 3 \<and>
      length [30, 31, 32 :: int] = 3"
    by simp
  from ExtractElementDofs_copies_blocks [THEN conjunct2, rule_format, OF this, of "[40, 41, 42]"]
  have two: "ExtractElementDofs_static 3 [2, 0, 1]
      [10, 11, 12, 20, 21, 22, 30, 31, 32, 40, 41, 42 :: int] =
      Inr [30, 31, 32, 10, 11, 12, 20, 21, 22]"
    by simp
  from one two show ?thesis
    by simp
qed

subsection \<open>Missing kernels\<close>

lemma message_names_method_and_type:
  assumes "ThrowIfNotImplemented e (''Do'' @ operation) = RuntimeError msg"
  shows "sublist (''Do'' @ operation) msg \<and> sublist operation msg \<and>
         sublist (type_name (derived e)) msg"
proof -
  let ?head = "''The DerivedElement from drake::multibody::fem::internal::FemElement<''"
  let ?mid = "''> must provide an implementation for ''"
  have msg: "msg = ?head @ type_name (derived e) @ ?mid @ ''Do'' @ operation @ ''().''"
    using assms by (simp add: ThrowIfNotImplemented_def NiceTypeName_Get_def)
  have "msg = (?head @ type_name (derived e) @ ?mid) @ (''Do'' @ operation) @ ''().''"
    and "msg = (?head @ type_name (derived e) @ ?mid @ ''Do'') @ operation @ ''().''"
    and "msg = ?head @ type_name (derived e) @ (?mid @ ''Do'' @ operation @ ''().'')"
    unfolding msg by simp_all
  then show ?thesis
    unfolding sublist_def by blast
qed

text \<open>
  Claim C7. \<open>ComputeData\<close>, \<open>CalcResidual\<close>, \<open>AddScaledStiffnessMatrix\<close> and
  \<open>AddScaledMassMatrix\<close>, called on an element whose concrete class omits the
  corresponding kernel, throw a runtime error whose message contains the name of the
  omitted kernel (\<open>Do\<close> followed by the name of the operation, hence also the name of
  the operation) and the name of the concrete element type.
\<close>

theorem missing_kernel_throws_descriptive_message:
  "(derived_DoComputeData (derived e) = None \<longrightarrow>
      (\<exists>msg. ComputeData e state = Inl (RuntimeError msg) \<and>
         sublist ''DoComputeData'' msg \<and> sublist ''ComputeData'' msg \<and>
         sublist (type_name (derived e)) msg)) \<and>
   (derived_DoCalcResidual (derived e) = None \<longrightarrow>
      (\<exists>msg. CalcResidual e data (Some r) = Inl (RuntimeError msg) \<and>
         sublist ''DoCalcResidual'' msg \<and> sublist ''CalcResidual'' msg \<and>
         sublist (type_name (derived e)) msg)) \<and>
   (derived_DoAddScaledStiffnessMatrix (derived e) = None \<longrightarrow>
      (\<exists>msg. AddScaledStiffnessMatrix e data scale (Some K) = Inl (RuntimeError msg) \<and>
         sublist ''DoAddScaledStiffnessMatrix'' msg \<and> sublist ''AddScaledStiffnessMatrix'' msg \<and>
         sublist (type_name (derived e)) msg)) \<and>
   (derived_DoAddScaledMassMatrix (derived e) = None \<longrightarrow>
      (\<exists>msg. AddScaledMassMatrix e data scale (Some M) = Inl (RuntimeError msg) \<and>
         sublist ''DoAddScaledMassMatrix'' msg \<and> sublist ''AddScaledMassMatrix'' msg \<and>
         sublist (type_name (derived e)) msg))"
proof -
  obtain m1 where m1: "ThrowIfNotImplemented e (''Do'' @ ''ComputeData'') = RuntimeError m1"
    by (simp add: ThrowIfNotImplemented_def)
  obtain m2 where m2: "ThrowIfNotImplemented e (''Do'' @ ''CalcResidual'') = RuntimeError m2"
    by (simp add: ThrowIfNotImplemented_def)
  obtain m3 where m3:
    "ThrowIfNotImplemented e (''Do'' @ ''AddScaledStiffnessMatrix'') = RuntimeError m3"
    by (simp add: ThrowIfNotImplemented_def)
  obtain m4 where m4:
    "ThrowIfNotImplemented e (''Do'' @ ''AddScaledMassMatrix'') = RuntimeError m4"
    by (simp add: ThrowIfNotImplemented_def)
  note names = message_names_method_and_type [OF m1] message_names_method_and_type [OF m2]
    message_names_method_and_type [OF m3] message_names_method_and_type [OF m4]
  have "derived_DoComputeData (derived e) = None \<Longrightarrow>
      ComputeData e state = Inl (RuntimeError m1)"
    using m1 by (simp add: ComputeData_def DoComputeData_def)
  moreover have "derived_DoCalcResidual (derived e) = None \<Longrightarrow>
      CalcResidual e data (Some r) = Inl (RuntimeError m2)"
    using m2 by (simp add: CalcResidual_def DRAKE_ASSERT_def DoCalcResidual_def)
  moreover have "derived_DoAddScaledStiffnessMatrix (derived e) = None \<Longrightarrow>
      AddScaledStiffnessMatrix e data scale (Some K) = Inl (RuntimeError m3)"
    using m3
    by (simp add: AddScaledStiffnessMatrix_def DRAKE_ASSERT_def DoAddScaledStiffnessMatrix_def)
  moreover have "derived_DoAddScaledMassMatrix (derived e) = None \<Longrightarrow>
      AddScaledMassMatrix e data scale (Some M) = Inl (RuntimeError m4)"
    using m4 by (simp add: AddScaledMassMatrix_def DRAKE_ASSERT_def DoAddScaledMassMatrix_def)
  ultimately show ?thesis
    using names by simp
qed

theorem missing_kernel_throws_descriptive_message_witness:
  "((\<exists>msg. ComputeData bare_element () = Inl (RuntimeError msg) \<and>
         sublist ''DoComputeData'' msg \<and> sublist ''ComputeData'' msg \<and>
         sublist ''BareElement'' msg) \<and>
    (\<exists>msg. CalcResidual bare_element () (Some [0, 0, 0, 0, 0, 0]) = Inl (RuntimeError msg) \<and>
         sublist ''DoCalcResidual'' msg \<and> sublist ''CalcResidual'' msg \<and>
         sublist ''BareElement'' msg) \<and>
    (\<exists>msg. AddScaledStiffnessMatrix bare_element () 1 (Some example_K) = Inl (RuntimeError msg) \<and>
         sublist ''DoAddScaledStiffnessMatrix'' msg \<and> sublist ''AddScaledStiffnessMatrix'' msg \<and>
         sublist ''BareElement'' msg) \<and>
    (\<exists>msg. AddScaledMassMatrix bare_element () 1 (Some example_M) = Inl (RuntimeError msg) \<and>
         sublist ''DoAddScaledMassMatrix'' msg \<and> sublist ''AddScaledMassMatrix'' msg \<and>
         sublist ''BareElement'' msg)) \<and>
   ComputeData bare_element () =
     Inl (RuntimeError (''The DerivedElement from '' @
       ''drake::multibody::fem::internal::FemElement<BareElement>'' @
       '' must provide an implementation for DoComputeData().''))"
proof -
  have bare: "derived bare_element = BareElement"
    by (simp add: bare_element_def FemElement_ctor_def)
  have none: "derived_DoComputeData (derived bare_element) = None"
    "derived_DoCalcResidual (derived bare_element) = None"
    "derived_DoAddScaledStiffnessMatrix (derived bare_element) = None"
    "derived_DoAddScaledMassMatrix (derived bare_element) = None"
    and name: "type_name (derived bare_element) = ''BareElement''"
    by (simp_all add: bare BareElement_def)
  have direct: "ComputeData bare_element () =
     Inl (RuntimeError (''The DerivedElement from '' @
       ''drake::multibody::fem::internal::FemElement<BareElement>'' @
       '' must provide an implementation for DoComputeData().''))"
    by (simp add: ComputeData_def DoComputeData_def ThrowIfNotImplemented_def
        NiceTypeName_Get_def none name)
  from missing_kernel_throws_descriptive_message [of bare_element "()" "()"
      "[0, 0, 0, 0, 0, 0]" 1 example_K example_M]
  show ?thesis
    unfolding none name using direct by simp
qed

subsection \<open>Gravity and the hook for further external forces\<close>

lemma concat_replicate_Suc: "concat (replicate (Suc n) g) = concat (replicate n g) @ g"
  by (induction n) simp_all

lemma stacked_gravity_loop_concat:
  assumes g: "length g = 3"
  shows "3 * n \<le> length init \<Longrightarrow>
     stacked_gravity_loop n g init = concat (replicate n g) @ drop (3 * n) init"
proof (induction n)
  case 0
  show ?case by (simp add: stacked_gravity_loop_def)
next
  case (Suc n)
  then have IH: "stacked_gravity_loop n g init = concat (replicate n g) @ drop (3 * n) init"
    by simp
  have len: "length (concat (replicate n g)) = 3 * n"
    using g by (simp add: length_concat sum_list_replicate)
  have "stacked_gravity_loop (Suc n) g init =
      assign_segment (3 * n) g (stacked_gravity_loop n g init)"
    by (simp add: stacked_gravity_loop_def)
  also have "\<dots> = concat (replicate n g) @ g @ drop (3 * n + 3) init"
    unfolding IH using len g by (simp add: assign_segment_def add.commute)
  also have "\<dots> = concat (replicate (Suc n) g) @ drop (3 * Suc n) init"
    unfolding concat_replicate_Suc by (simp add: add.commute)
  finally show ?case .
qed

lemma vec_scale_one: "vec_scale 1 v = v"
  by (induction v) (simp_all add: vec_scale_def)

lemma mat_scale_one: "mat_scale 1 A = A"
  by (induction A) (simp_all add: mat_scale_def vec_scale_one)

lemma AddScaledExternalForce_gravity:
  assumes kernel: "derived_DoAddScaledMassMatrix (derived e) = Some kM"
    and contract: "adds_scaled (num_dofs e) kM data M"
    and dofs: "num_dofs e = 3 * num_nodes e" and g: "length (gravity_vector e) = 3"
  shows "AddScaledExternalForce e data s (Some f) =
     Inr (vec_add f (mat_vec (mat_scale s M)
                       (concat (replicate (num_nodes e) (gravity_vector e)))))"
proof -
  have M: "is_mat (num_dofs e) M"
    using contract by (rule adds_scaled_is_mat)
  have "AddScaledMassMatrix e data 1 (Some (Zero_mat (num_dofs e) (num_dofs e))) = Inr M"
    using kernel contract M
    by (simp add: AddScaledMassMatrix_Some adds_scaledD is_mat_Zero mat_add_Zero mat_scale_one)
  moreover have "stacked_gravity_loop (num_nodes e) (gravity_vector e) (replicate (num_dofs e) 0) =
      concat (replicate (num_nodes e) (gravity_vector e))"
    using stacked_gravity_loop_concat [OF g, of "num_nodes e" "replicate (num_dofs e) 0"] dofs
    by simp
  ultimately show ?thesis
    by (simp add: AddScaledExternalForce_def DRAKE_ASSERT_def AddScaledGravityForce_def
        DoAddScaledExternalForce_def)
qed

lemma AddScaledMassMatrix_hook_update:
  "AddScaledMassMatrix
     (e\<lparr>derived := (derived e)\<lparr>derived_DoAddScaledExternalForce := hook\<rparr>\<rparr>) data s M =
     AddScaledMassMatrix e data s M"
  by (cases "derived_DoAddScaledMassMatrix (derived e)")
     (simp_all add: AddScaledMassMatrix_def DoAddScaledMassMatrix_def ThrowIfNotImplemented_def
        NiceTypeName_Get_def)

lemma AddScaledGravityForce_hook_update:
  "AddScaledGravityForce
     (e\<lparr>derived := (derived e)\<lparr>derived_DoAddScaledExternalForce := hook\<rparr>\<rparr>) data s f =
     AddScaledGravityForce e data s f"
  by (simp add: AddScaledGravityForce_def AddScaledMassMatrix_hook_update cong: sum.case_cong)

text \<open>
  Claim C6. \<open>AddScaledExternalForce\<close> adds the gravity contribution, \<open>s\<close> times the local
  mass matrix times the gravity vector stacked once per node (lemma
  \<open>AddScaledExternalForce_gravity\<close>), and then calls \<open>DoAddScaledExternalForce\<close>. That
  call is the member of the base class, whose body is empty: a hook declared by the
  concrete class does not change the result. For the two-node element with the default
  gravity and the identity as local mass matrix, whose class declares a hook that adds
  \<open>scale\<close> to every entry, scale 1 on a zeroed buffer yields \<open>[0, 0, -9.81, 0, 0, -9.81]\<close>:
  the gravity contribution alone.
\<close>

theorem AddScaledExternalForce_skips_declared_hook:
  "AddScaledExternalForce
     (e\<lparr>derived := (derived e)\<lparr>derived_DoAddScaledExternalForce := hook\<rparr>\<rparr>) data s f =
     AddScaledExternalForce e data s f \<and>
   derived_DoAddScaledExternalForce (derived example_element) =
     Some (\<lambda>data scale f. vec_add f (replicate 6 scale)) \<and>
   AddScaledExternalForce example_element () 1 (Some [0, 0, 0, 0, 0, 0]) =
     Inr [0, 0, - 9.81, 0, 0, - 9.81]"
proof (intro conjI)
  show "AddScaledExternalForce
     (e\<lparr>derived := (derived e)\<lparr>derived_DoAddScaledExternalForce := hook\<rparr>\<rparr>) data s f =
     AddScaledExternalForce e data s f"
    by (cases "AddScaledGravityForce e data s f")
       (simp_all add: AddScaledExternalForce_def AddScaledGravityForce_hook_update
          DoAddScaledExternalForce_def)
  show "derived_DoAddScaledExternalForce (derived example_element) =
     Some (\<lambda>data scale f. vec_add f (replicate 6 scale))"
    by (simp add: derived_example_element ExampleElement_def)
  have "AddScaledExternalForce example_element () 1 (Some [0, 0, 0, 0, 0, 0]) =
     Inr (vec_add [0, 0, 0, 0, 0, 0]
            (mat_vec (mat_scale 1 example_M)
               (concat (replicate (num_nodes example_element) (gravity_vector example_element)))))"
    by (rule AddScaledExternalForce_gravity [OF example_mass_kernel])
       (simp_all add: example_counts example_gravity adds_scaled_accumulate_kernel is_mat_example_M)
  then show "AddScaledExternalForce example_element () 1 (Some [0, 0, 0, 0, 0, 0]) =
     Inr [0, 0, - 9.81, 0, 0, - 9.81]"
    by (simp add: example_counts example_gravity numeral_2_eq_2 example_M_def mat_scale_def
        vec_scale_def mat_vec_def dot_def vec_add_def)
qed

end
